theory Spec2Isabelle
  imports Complex_Main "HOL-Library.Sublist"
begin

section \<open>Data model (vendors/models.py)\<close>

text \<open>
  A \<open>DateTimeField\<close> value is a point in time with microsecond resolution; it is
  modelled as the number of microseconds since the epoch, and the difference of two of
  them (a \<open>timedelta\<close>) as a number of microseconds. A \<open>FloatField\<close> is modelled as
  a real number: the arithmetic of the metric functions is read as exact arithmetic.
  The \<open>JSONField\<close> payload is a list of key-value pairs.
\<close>

type_synonym datetime = int
type_synonym timedelta = int
type_synonym json = "(string \<times> string) list"

record Vendor =
  vendor_code :: string
  name :: string
  contact_details :: string
  address :: string
  on_time_delivery_rate :: real
  quality_rating_avg :: real
  average_response_time :: real
  fulfillment_rate :: real

text \<open>The field \<open>vendor\<close> of a purchase order is the foreign key column: the
  \<open>vendor_code\<close> of the owning vendor.\<close>

record PurchaseOrder =
  po_number :: string
  vendor :: string
  order_date :: datetime
  delivery_date :: datetime
  items :: json
  quantity :: int
  status :: string
  quality_rating :: "real option"
  issue_date :: datetime
  acknowledgement_date :: "datetime option"

record HistoricalPerformance =
  hp_vendor :: string
  hp_date :: datetime
  hp_on_time_delivery_rate :: real
  hp_quality_rating_avg :: real
  hp_average_response_time :: real
  hp_fulfillment_rate :: real

section \<open>The persistent store and the object manager\<close>

text \<open>The three tables, each in insertion order.\<close>

record db =
  Vendor_objects :: "Vendor list"
  PurchaseOrder_objects :: "PurchaseOrder list"
  HistoricalPerformance_objects :: "HistoricalPerformance list"

datatype db_exception = IntegrityError | DoesNotExist | OverflowError

text \<open>The column of an \<open>IntegerField\<close> is a signed 64-bit integer, while the integer
  of a JSON body is unbounded. A write of an object whose \<open>quantity\<close> lies outside the
  range raises \<open>OverflowError\<close> when the statement's parameters are bound, before any
  row is touched. A value that was read from the column fits it.\<close>

definition integer_column_fits :: "int \<Rightarrow> bool" where
  "integer_column_fits n = (- (2 ^ 63) \<le> n \<and> n < 2 ^ 63)"

text \<open>\<open>Model.save()\<close> writes the row whose primary key is the object's current key:
  it replaces that row when there is one and inserts a new row otherwise.\<close>

fun upsert :: "('a \<Rightarrow> 'k) \<Rightarrow> 'a \<Rightarrow> 'a list \<Rightarrow> 'a list" where
  "upsert key x [] = [x]"
| "upsert key x (y # ys) = (if key y = key x then x # ys else y # upsert key x ys)"

definition Vendor_get :: "string \<Rightarrow> db \<Rightarrow> Vendor option" where
  "Vendor_get pk s = find (\<lambda>v. vendor_code v = pk) (Vendor_objects s)"

definition Vendor_save :: "Vendor \<Rightarrow> db \<Rightarrow> db" where
  "Vendor_save v s = s\<lparr>Vendor_objects := upsert vendor_code v (Vendor_objects s)\<rparr>"

definition Vendor_create :: "Vendor \<Rightarrow> db \<Rightarrow> db_exception + db" where
  "Vendor_create v s =
     (if Vendor_get (vendor_code v) s \<noteq> None then Inl IntegrityError
      else Inr (s\<lparr>Vendor_objects := Vendor_objects s @ [v]\<rparr>))"

text \<open>Both foreign keys to \<open>Vendor\<close> are declared \<open>on_delete=CASCADE\<close>.\<close>

definition Vendor_delete :: "Vendor \<Rightarrow> db \<Rightarrow> db" where
  "Vendor_delete v s =
     \<lparr>Vendor_objects = filter (\<lambda>w. vendor_code w \<noteq> vendor_code v) (Vendor_objects s),
      PurchaseOrder_objects =
        filter (\<lambda>po. vendor po \<noteq> vendor_code v) (PurchaseOrder_objects s),
      HistoricalPerformance_objects =
        filter (\<lambda>r. hp_vendor r \<noteq> vendor_code v) (HistoricalPerformance_objects s)\<rparr>"

definition PurchaseOrder_get :: "string \<Rightarrow> db \<Rightarrow> PurchaseOrder option" where
  "PurchaseOrder_get pk s = find (\<lambda>po. po_number po = pk) (PurchaseOrder_objects s)"

definition PurchaseOrder_save :: "PurchaseOrder \<Rightarrow> db \<Rightarrow> db" where
  "PurchaseOrder_save po s =
     s\<lparr>PurchaseOrder_objects := upsert po_number po (PurchaseOrder_objects s)\<rparr>"

definition PurchaseOrder_create :: "PurchaseOrder \<Rightarrow> db \<Rightarrow> db_exception + db" where
  "PurchaseOrder_create po s =
     (if \<not> integer_column_fits (quantity po) then Inl OverflowError
      else if PurchaseOrder_get (po_number po) s \<noteq> None then Inl IntegrityError
      else Inr (s\<lparr>PurchaseOrder_objects := PurchaseOrder_objects s @ [po]\<rparr>))"

definition PurchaseOrder_delete :: "PurchaseOrder \<Rightarrow> db \<Rightarrow> db" where
  "PurchaseOrder_delete po s =
     s\<lparr>PurchaseOrder_objects :=
         filter (\<lambda>p. po_number p \<noteq> po_number po) (PurchaseOrder_objects s)\<rparr>"

definition HistoricalPerformance_create :: "HistoricalPerformance \<Rightarrow> db \<Rightarrow> db" where
  "HistoricalPerformance_create r s =
     s\<lparr>HistoricalPerformance_objects := HistoricalPerformance_objects s @ [r]\<rparr>"

text \<open>\<open>Avg\<close> over a column: null entries are skipped, and the aggregate is null when
  no entry is left.\<close>

definition Avg :: "real option list \<Rightarrow> real option" where
  "Avg col =
     (let vals = List.map_filter id col
      in if vals = [] then None else Some (sum_list vals / real (length vals)))"

definition total_seconds :: "timedelta \<Rightarrow> real" where
  "total_seconds d = real_of_int d / 1000000"

section \<open>The metric functions (vendors/views.py)\<close>

text \<open>
  Each metric function receives the vendor object, assigns one attribute of it and
  saves it; the caller goes on with the same object. The model returns the updated
  object together with the updated store.
\<close>

text \<open>The generator of line 296 runs over orders that passed the filter
  \<open>acknowledgement_date__isnull=False\<close>, so the first case below is never taken
  there.\<close>

definition response_seconds :: "PurchaseOrder \<Rightarrow> real" where
  "response_seconds po =
     (case acknowledgement_date po of
        None \<Rightarrow> 0
      | Some a \<Rightarrow> total_seconds (a - issue_date po))"

definition calculate_average_response_time :: "Vendor \<Rightarrow> db \<Rightarrow> Vendor \<times> db" where
  "calculate_average_response_time vnd s =
     (let purchase_orders =
            filter (\<lambda>po. vendor po = vendor_code vnd \<and> acknowledgement_date po \<noteq> None)
              (PurchaseOrder_objects s);
          total_response_time = sum_list (map response_seconds purchase_orders);
          avg_response_time =
            (if length purchase_orders > 0
             then total_response_time / real (length purchase_orders) else 0);
          vnd' = vnd\<lparr>average_response_time := avg_response_time\<rparr>
      in (vnd', Vendor_save vnd' s))"

definition quality_rating_calculation :: "Vendor \<Rightarrow> db \<Rightarrow> Vendor \<times> db" where
  "quality_rating_calculation vnd s =
     (let completed_purchase_orders =
            filter (\<lambda>po. vendor po = vendor_code vnd \<and> status po = ''completed'')
              (PurchaseOrder_objects s);
          average_quality_rating = Avg (map quality_rating completed_purchase_orders);
          vnd' = vnd\<lparr>quality_rating_avg :=
                   (case average_quality_rating of Some a \<Rightarrow> a | None \<Rightarrow> 0)\<rparr>
      in (vnd', Vendor_save vnd' s))"

definition fulfillment_rate_calculation :: "Vendor \<Rightarrow> db \<Rightarrow> Vendor \<times> db" where
  "fulfillment_rate_calculation vnd s =
     (let completed_po_count =
            length (filter (\<lambda>po. vendor po = vendor_code vnd \<and> status po = ''completed'')
              (PurchaseOrder_objects s));
          total_po_count =
            length (filter (\<lambda>po. vendor po = vendor_code vnd) (PurchaseOrder_objects s));
          rate = (if total_po_count \<noteq> 0
                  then real completed_po_count / real total_po_count else 0);
          vnd' = vnd\<lparr>fulfillment_rate := rate\<rparr>
      in (vnd', Vendor_save vnd' s))"

text \<open>\<open>now\<close> is the reading of \<open>datetime.now()\<close> at line 326.\<close>

definition create_historical_record :: "datetime \<Rightarrow> Vendor \<Rightarrow> db \<Rightarrow> db" where
  "create_historical_record now vnd s =
     HistoricalPerformance_create
       \<lparr>hp_vendor = vendor_code vnd,
        hp_date = now,
        hp_on_time_delivery_rate = on_time_delivery_rate vnd,
        hp_quality_rating_avg = quality_rating_avg vnd,
        hp_average_response_time = average_response_time vnd,
        hp_fulfillment_rate = fulfillment_rate vnd\<rparr> s"

section \<open>Requests and responses\<close>

text \<open>
  A request body is a JSON object. The model keeps, for every key the handlers read,
  whether the key is present and, if so, its value, of the type of the column it is
  written to: \<open>None\<close> is an absent key. The two nullable columns may also carry
  the JSON value \<open>null\<close>, which is \<open>Some None\<close>. Keys the handlers do not read are
  ignored by them and are left out.
\<close>

record vendor_details =
  vd_name :: "string option"
  vd_contact_details :: "string option"
  vd_address :: "string option"
  vd_vendor_code :: "string option"
  vd_on_time_delivery_rate :: "real option"
  vd_quality_rating_avg :: "real option"
  vd_average_response_time :: "real option"
  vd_fulfillment_rate :: "real option"

record po_details =
  pd_po_number :: "string option"
  pd_vendor :: "string option"
  pd_order_date :: "datetime option"
  pd_delivery_date :: "datetime option"
  pd_items :: "json option"
  pd_quantity :: "int option"
  pd_status :: "string option"
  pd_quality_rating :: "real option option"
  pd_issue_date :: "datetime option"
  pd_acknowledgement_date :: "datetime option option"

text \<open>\<open>field in vendor_details\<close> and \<open>field in po_details\<close>.\<close>

definition vendor_details_contains :: "vendor_details \<Rightarrow> string \<Rightarrow> bool" where
  "vendor_details_contains d field =
     (if field = ''name'' then vd_name d \<noteq> None
      else if field = ''contact_details'' then vd_contact_details d \<noteq> None
      else if field = ''address'' then vd_address d \<noteq> None
      else if field = ''vendor_code'' then vd_vendor_code d \<noteq> None
      else if field = ''on_time_delivery_rate'' then vd_on_time_delivery_rate d \<noteq> None
      else if field = ''quality_rating_avg'' then vd_quality_rating_avg d \<noteq> None
      else if field = ''average_response_time'' then vd_average_response_time d \<noteq> None
      else if field = ''fulfillment_rate'' then vd_fulfillment_rate d \<noteq> None
      else False)"

definition po_details_contains :: "po_details \<Rightarrow> string \<Rightarrow> bool" where
  "po_details_contains d field =
     (if field = ''po_number'' then pd_po_number d \<noteq> None
      else if field = ''vendor'' then pd_vendor d \<noteq> None
      else if field = ''order_date'' then pd_order_date d \<noteq> None
      else if field = ''delivery_date'' then pd_delivery_date d \<noteq> None
      else if field = ''items'' then pd_items d \<noteq> None
      else if field = ''quantity'' then pd_quantity d \<noteq> None
      else if field = ''status'' then pd_status d \<noteq> None
      else if field = ''quality_rating'' then pd_quality_rating d \<noteq> None
      else if field = ''issue_date'' then pd_issue_date d \<noteq> None
      else if field = ''acknowledgement_date'' then pd_acknowledgement_date d \<noteq> None
      else False)"

text \<open>\<open>d.get(key, default)\<close> on a key read as \<open>k\<close>, and \<open>d.get(key, None)\<close> on a key
  of a nullable column.\<close>

definition dict_get :: "'a option \<Rightarrow> 'a \<Rightarrow> 'a" where
  "dict_get k dflt = (case k of Some x \<Rightarrow> x | None \<Rightarrow> dflt)"

definition dict_get_nullable :: "'a option option \<Rightarrow> 'a option" where
  "dict_get_nullable k = (case k of Some x \<Rightarrow> x | None \<Rightarrow> None)"

text \<open>\<open>sep.join(xs)\<close>.\<close>

fun join :: "string \<Rightarrow> string list \<Rightarrow> string" where
  "join sep [] = []"
| "join sep [x] = x"
| "join sep (x # y # ys) = x @ sep @ join sep (y # ys)"

datatype 'b http_method = GET | POST 'b | PUT 'b | DELETE

text \<open>What a response carries: the \<open>error\<close> or \<open>message\<close> entry of the JSON object,
  the text of a caught exception (its wording belongs to the database backend), or the
  data of a read. An exception no handler catches ends the request with status 500.\<close>

datatype content =
    ErrorJson string
  | ExceptionJson db_exception
  | MessageJson string
  | VendorJson Vendor
  | VendorListJson "Vendor list"
  | PerformanceJson string real real real real
  | PurchaseOrderJson PurchaseOrder
  | PurchaseOrderListJson "PurchaseOrder list"
  | MethodNotAllowed
  | Uncaught db_exception

record response =
  content :: content
  status_code :: nat

definition JsonResponse :: "content \<Rightarrow> nat \<Rightarrow> response" where
  "JsonResponse c st = \<lparr>content = c, status_code = st\<rparr>"

definition method_not_allowed :: response where
  "method_not_allowed = \<lparr>content = MethodNotAllowed, status_code = 405\<rparr>"

definition server_error :: "db_exception \<Rightarrow> response" where
  "server_error e = \<lparr>content = Uncaught e, status_code = 500\<rparr>"

section \<open>The request handlers (vendors/views.py)\<close>

text \<open>Requests are taken as authenticated. Each handler maps the request and the
  store to the response and the store it leaves.\<close>

definition vendors_required_fields :: "string list" where
  "vendors_required_fields =
     [''name'', ''contact_details'', ''address'', ''vendor_code'', ''on_time_delivery_rate'',
      ''quality_rating_avg'', ''average_response_time'', ''fulfillment_rate'']"

definition vendors :: "vendor_details http_method \<Rightarrow> db \<Rightarrow> response \<times> db" where
  "vendors request s =
     (case request of
        POST d \<Rightarrow>
          (let missing_fields =
                 filter (\<lambda>field. \<not> vendor_details_contains d field) vendors_required_fields
           in if missing_fields \<noteq> []
              then (JsonResponse (ErrorJson (''missing fields: '' @ join '', '' missing_fields)) 400, s)
              else
                (let vnd = \<lparr>vendor_code = the (vd_vendor_code d),
                            name = the (vd_name d),
                            contact_details = the (vd_contact_details d),
                            address = the (vd_address d),
                            on_time_delivery_rate = the (vd_on_time_delivery_rate d),
                            quality_rating_avg = the (vd_quality_rating_avg d),
                            average_response_time = the (vd_average_response_time d),
                            fulfillment_rate = the (vd_fulfillment_rate d)\<rparr>
                 in case Vendor_create vnd s of
                      Inl e \<Rightarrow> (JsonResponse (ExceptionJson e) 400, s)
                    | Inr s' \<Rightarrow>
                        (JsonResponse (MessageJson ''vendor created'') 201, Vendor_save vnd s')))
      | GET \<Rightarrow> (JsonResponse (VendorListJson (Vendor_objects s)) 200, s)
      | _ \<Rightarrow> (method_not_allowed, s))"

definition vendor_data :: "vendor_details http_method \<Rightarrow> string \<Rightarrow> db \<Rightarrow> response \<times> db" where
  "vendor_data request vendor_id s =
     (case request of
        POST d \<Rightarrow> (method_not_allowed, s)
      | _ \<Rightarrow>
        (case Vendor_get vendor_id s of
           None \<Rightarrow> (JsonResponse (ErrorJson ''invalid vendor id'') 404, s)
         | Some vnd \<Rightarrow>
             (case request of
                GET \<Rightarrow> (JsonResponse (VendorJson vnd) 200, s)
              | PUT d \<Rightarrow>
                  (let vnd' = vnd\<lparr>
                         name := dict_get (vd_name d) (name vnd),
                         contact_details := dict_get (vd_contact_details d) (contact_details vnd),
                         address := dict_get (vd_address d) (address vnd),
                         vendor_code := dict_get (vd_vendor_code d) (vendor_code vnd),
                         on_time_delivery_rate :=
                           dict_get (vd_on_time_delivery_rate d) (on_time_delivery_rate vnd),
                         quality_rating_avg :=
                           dict_get (vd_quality_rating_avg d) (quality_rating_avg vnd),
                         average_response_time :=
                           dict_get (vd_average_response_time d) (average_response_time vnd),
                         fulfillment_rate :=
                           dict_get (vd_fulfillment_rate d) (fulfillment_rate vnd)\<rparr>
                   in (JsonResponse (MessageJson ''vendor updated'') 200, Vendor_save vnd' s))
              | DELETE \<Rightarrow>
                  (JsonResponse (MessageJson ''vendor deleted'') 204, Vendor_delete vnd s)
              | POST d \<Rightarrow> (method_not_allowed, s))))"

definition vendor_performance :: "string \<Rightarrow> db \<Rightarrow> response \<times> db" where
  "vendor_performance vendor_id s =
     (case Vendor_get vendor_id s of
        None \<Rightarrow> (JsonResponse (ErrorJson ''invalid vendor id'') 404, s)
      | Some vnd \<Rightarrow>
          (JsonResponse
             (PerformanceJson (vendor_code vnd) (on_time_delivery_rate vnd)
                (quality_rating_avg vnd) (average_response_time vnd) (fulfillment_rate vnd))
             200, s))"

definition purchase_orders_required_fields :: "string list" where
  "purchase_orders_required_fields =
     [''po_number'', ''vendor'', ''order_date'', ''delivery_date'', ''items'', ''quantity'',
      ''status'', ''issue_date'']"

text \<open>\<open>vendor_id\<close> is the query parameter, \<open>None\<close> when the query string has none.\<close>

definition purchase_orders ::
  "po_details http_method \<Rightarrow> string option \<Rightarrow> db \<Rightarrow> response \<times> db" where
  "purchase_orders request vendor_id s =
     (case request of
        GET \<Rightarrow>
          (if vendor_id \<noteq> None \<and> vendor_id \<noteq> Some []
           then (case Vendor_get (the vendor_id) s of
                   None \<Rightarrow> (server_error DoesNotExist, s)
                 | Some vnd \<Rightarrow>
                     (JsonResponse
                        (PurchaseOrderListJson
                           (filter (\<lambda>po. vendor po = vendor_code vnd) (PurchaseOrder_objects s)))
                        200, s))
           else (JsonResponse (PurchaseOrderListJson (PurchaseOrder_objects s)) 200, s))
      | POST d \<Rightarrow>
          (let missing_fields =
                 filter (\<lambda>field. \<not> po_details_contains d field) purchase_orders_required_fields
           in if missing_fields \<noteq> []
              then (JsonResponse (ErrorJson (''Missing fields: '' @ join '', '' missing_fields)) 400, s)
              else
                (case Vendor_get (the (pd_vendor d)) s of
                   None \<Rightarrow> (JsonResponse (ExceptionJson DoesNotExist) 400, s)
                 | Some vnd \<Rightarrow>
                     (let po = \<lparr>po_number = the (pd_po_number d),
                                vendor = vendor_code vnd,
                                order_date = the (pd_order_date d),
                                delivery_date = the (pd_delivery_date d),
                                items = the (pd_items d),
                                quantity = the (pd_quantity d),
                                status = the (pd_status d),
                                quality_rating = dict_get_nullable (pd_quality_rating d),
                                issue_date = the (pd_issue_date d),
                                acknowledgement_date =
                                  dict_get_nullable (pd_acknowledgement_date d)\<rparr>
                      in case PurchaseOrder_create po s of
                           Inl e \<Rightarrow> (JsonResponse (ExceptionJson e) 400, s)
                         | Inr s' \<Rightarrow>
                             (JsonResponse (MessageJson ''purchase order created successfully'') 201,
                              PurchaseOrder_save po s'))))
      | _ \<Rightarrow> (method_not_allowed, s))"

text \<open>Lines 241 to 249: the assignments of the PUT branch to the loaded order.\<close>

definition assign_po_details :: "PurchaseOrder \<Rightarrow> po_details \<Rightarrow> PurchaseOrder" where
  "assign_po_details po d =
     po\<lparr>po_number := dict_get (pd_po_number d) (po_number po),
        delivery_date := dict_get (pd_delivery_date d) (delivery_date po),
        order_date := dict_get (pd_order_date d) (order_date po),
        items := dict_get (pd_items d) (items po),
        quantity := dict_get (pd_quantity d) (quantity po),
        status := dict_get (pd_status d) (status po),
        quality_rating := dict_get_nullable (pd_quality_rating d),
        issue_date := dict_get (pd_issue_date d) (issue_date po),
        acknowledgement_date := dict_get_nullable (pd_acknowledgement_date d)\<rparr>"

text \<open>\<open>po.vendor\<close> loads the vendor row the foreign key names, on first use. \<open>now\<close> is
  the clock reading of \<open>create_historical_record\<close>. The \<open>po.save()\<close> of the PUT branch
  stands outside any \<open>try\<close>: when it raises, the request ends with status 500 and
  nothing is written.\<close>

definition purchase_order_data ::
  "po_details http_method \<Rightarrow> string \<Rightarrow> datetime \<Rightarrow> db \<Rightarrow> response \<times> db" where
  "purchase_order_data request po_id now s =
     (case request of
        POST d \<Rightarrow> (method_not_allowed, s)
      | _ \<Rightarrow>
        (case PurchaseOrder_get po_id s of
           None \<Rightarrow> (JsonResponse (ErrorJson ''invalid purchase order id'') 404, s)
         | Some po \<Rightarrow>
             (case request of
                GET \<Rightarrow> (JsonResponse (PurchaseOrderJson po) 200, s)
              | PUT d \<Rightarrow>
                  (let prev_status = status po;
                       po' = assign_po_details po d
                   in if \<not> integer_column_fits (quantity po')
                      then (server_error OverflowError, s)
                      else
                        (let s1 = PurchaseOrder_save po' s
                         in case Vendor_get (vendor po') s1 of
                              None \<Rightarrow> (server_error DoesNotExist, s1)
                            | Some vnd \<Rightarrow>
                                (let (vnd2, s3) =
                                       (if prev_status \<noteq> ''completed'' \<and>
                                           status po' = ''completed''
                                        then (let (vnd1, s2) = quality_rating_calculation vnd s1
                                              in fulfillment_rate_calculation vnd1 s2)
                                        else (vnd, s1))
                                 in (JsonResponse (MessageJson ''purchase order updated'') 200,
                                     create_historical_record now vnd2 s3))))
              | DELETE \<Rightarrow>
                  (case Vendor_get (vendor po) s of
                     None \<Rightarrow> (server_error DoesNotExist, s)
                   | Some vnd \<Rightarrow>
                       (let s1 = PurchaseOrder_delete po s;
                            (vnd1, s2) = calculate_average_response_time vnd s1;
                            (vnd2, s3) = fulfillment_rate_calculation vnd1 s2;
                            (vnd3, s4) = quality_rating_calculation vnd2 s3
                        in (JsonResponse (MessageJson ''purchase order deleted'') 204,
                            create_historical_record now vnd3 s4)))
              | POST d \<Rightarrow> (method_not_allowed, s))))"

text \<open>\<open>t_ack\<close> is the clock reading of line 282, \<open>now\<close> that of
  \<open>create_historical_record\<close>. The object saved here is the row just loaded with a
  clock reading as its acknowledgement date: every other value was read from its
  column.\<close>

definition acknowledge_purchase_order ::
  "string \<Rightarrow> datetime \<Rightarrow> datetime \<Rightarrow> db \<Rightarrow> response \<times> db" where
  "acknowledge_purchase_order po_id t_ack now s =
     (case PurchaseOrder_get po_id s of
        None \<Rightarrow> (JsonResponse (ErrorJson ''purchase order not found'') 404, s)
      | Some purchase_order \<Rightarrow>
          (if acknowledgement_date purchase_order = None
           then (let purchase_order' = purchase_order\<lparr>acknowledgement_date := Some t_ack\<rparr>;
                     s1 = PurchaseOrder_save purchase_order' s
                 in case Vendor_get (vendor purchase_order') s1 of
                      None \<Rightarrow> (server_error DoesNotExist, s1)
                    | Some vnd \<Rightarrow>
                        (let (vnd1, s2) = calculate_average_response_time vnd s1
                         in (JsonResponse (MessageJson ''purchase order acknowledged'') 200,
                             create_historical_record now vnd1 s2)))
           else (JsonResponse (MessageJson ''purchase order already acknowledged'') 200, s)))"

section \<open>Sequences of purchase-order requests\<close>

text \<open>A request to one of the three purchase-order routes of vendors/urls.py, with
  the clock readings its handler takes.\<close>

datatype po_request =
    Collection "po_details http_method" "string option"
  | Item "po_details http_method" string datetime
  | Acknowledge string datetime datetime

fun handle :: "po_request \<Rightarrow> db \<Rightarrow> response \<times> db" where
  "handle (Collection request vendor_id) s = purchase_orders request vendor_id s"
| "handle (Item request po_id now) s = purchase_order_data request po_id now s"
| "handle (Acknowledge po_id t_ack now) s = acknowledge_purchase_order po_id t_ack now s"

fun run :: "po_request list \<Rightarrow> db \<Rightarrow> db" where
  "run [] s = s"
| "run (r # rs) s = run rs (snd (handle r s))"


text \<open>Every stored quantity is a value of its column.\<close>

definition quantities_fit :: "db \<Rightarrow> bool" where
  "quantities_fit s =
     list_all (\<lambda>po. integer_column_fits (quantity po)) (PurchaseOrder_objects s)"

section \<open>The specification's reading of the metrics\<close>

text \<open>These definitions follow the words of the specification, sections 3 and 4; the
  theorems below compare the handlers with them.\<close>

definition vendor_orders :: "db \<Rightarrow> string \<Rightarrow> PurchaseOrder list" where
  "vendor_orders s code = filter (\<lambda>po. vendor po = code) (PurchaseOrder_objects s)"

definition mean :: "real list \<Rightarrow> real" where
  "mean xs = (if xs = [] then 0 else sum_list xs / real (length xs))"

definition spec_average_response_time :: "db \<Rightarrow> string \<Rightarrow> real" where
  "spec_average_response_time s code =
     mean (List.map_filter
             (\<lambda>po. map_option (\<lambda>a. total_seconds (a - issue_date po)) (acknowledgement_date po))
             (vendor_orders s code))"

definition spec_quality_rating_avg :: "db \<Rightarrow> string \<Rightarrow> real" where
  "spec_quality_rating_avg s code =
     mean (List.map_filter quality_rating
             (filter (\<lambda>po. status po = ''completed'') (vendor_orders s code)))"

definition spec_fulfillment_rate :: "db \<Rightarrow> string \<Rightarrow> real" where
  "spec_fulfillment_rate s code =
     (if vendor_orders s code = [] then 0
      else real (length (filter (\<lambda>po. status po = ''completed'') (vendor_orders s code)))
           / real (length (vendor_orders s code)))"

text \<open>The snapshot of section 4.4: the four metric fields of a vendor at a time.\<close>

definition snapshot :: "datetime \<Rightarrow> Vendor \<Rightarrow> HistoricalPerformance" where
  "snapshot now vnd =
     \<lparr>hp_vendor = vendor_code vnd, hp_date = now,
      hp_on_time_delivery_rate = on_time_delivery_rate vnd,
      hp_quality_rating_avg = quality_rating_avg vnd,
      hp_average_response_time = average_response_time vnd,
      hp_fulfillment_rate = fulfillment_rate vnd\<rparr>"





section \<open>The fixture of vendors/tests.py\<close>

text \<open>The vendor and the purchase order that \<open>PurchaseOrderAPITests.setUp\<close> stores,
  with one fixed reading for its \<open>datetime.now()\<close>.\<close>

definition test_vendor :: Vendor where
  "test_vendor =
     \<lparr>vendor_code = ''TEST001'', name = ''Test Vendor 1'',
      contact_details = ''Contact details 1'', address = ''Address 1'',
      on_time_delivery_rate = 0.95, quality_rating_avg = 4.5,
      average_response_time = 2.5, fulfillment_rate = 0.98\<rparr>"

definition test_order :: PurchaseOrder where
  "test_order =
     \<lparr>po_number = ''PO001'', vendor = ''TEST001'', order_date = 1000000,
      delivery_date = 1000000, items = [(''dummy item'', ''desc'')], quantity = 1,
      status = ''pending'', quality_rating = Some 2.3, issue_date = 1000000,
      acknowledgement_date = None\<rparr>"

definition test_db :: db where
  "test_db =
     \<lparr>Vendor_objects = [test_vendor], PurchaseOrder_objects = [test_order],
      HistoricalPerformance_objects = []\<rparr>"

text \<open>The request body \<open>{'status': 'completed'}\<close> of \<open>test_update_po\<close>, and the
  empty object.\<close>

definition empty_po_details :: po_details where
  "empty_po_details =
     \<lparr>pd_po_number = None, pd_vendor = None, pd_order_date = None, pd_delivery_date = None,
      pd_items = None, pd_quantity = None, pd_status = None, pd_quality_rating = None,
      pd_issue_date = None, pd_acknowledgement_date = None\<rparr>"

definition status_completed :: po_details where
  "status_completed = empty_po_details\<lparr>pd_status := Some ''completed''\<rparr>"


definition empty_vendor_details :: vendor_details where
  "empty_vendor_details =
     \<lparr>vd_name = None, vd_contact_details = None, vd_address = None, vd_vendor_code = None,
      vd_on_time_delivery_rate = None, vd_quality_rating_avg = None,
      vd_average_response_time = None, vd_fulfillment_rate = None\<rparr>"





text \<open>A store with two vendors and four orders: of the first vendor, two completed
  orders acknowledged after 2 and 4 seconds, one of them rated 4 and the other unrated,
  and a pending order rated 1 and not acknowledged; of the second vendor, one completed
  order.\<close>

definition metrics_db :: db where
  "metrics_db =
     \<lparr>Vendor_objects = [test_vendor, test_vendor\<lparr>vendor_code := ''TEST002''\<rparr>],
      PurchaseOrder_objects =
        [test_order\<lparr>status := ''completed'', quality_rating := Some 4,
                     acknowledgement_date := Some 3000000\<rparr>,
         test_order\<lparr>po_number := ''PO002'', status := ''completed'', quality_rating := None,
                     acknowledgement_date := Some 5000000\<rparr>,
         test_order\<lparr>po_number := ''PO003'', quality_rating := Some 1\<rparr>,
         test_order\<lparr>po_number := ''PO004'', vendor := ''TEST002'', status := ''completed'',
                     quality_rating := Some 5, acknowledgement_date := Some 9000000\<rparr>],
      HistoricalPerformance_objects = []\<rparr>"

section \<open>The object manager and the metric functions: basic facts\<close>

lemma find_upsert: "find (\<lambda>y. key y = key x) (upsert key x xs) = Some x"
  by (induction xs) auto


lemma response_times_eq:
  "map response_seconds (filter (\<lambda>po. vendor po = c \<and> acknowledgement_date po \<noteq> None) xs)
   = List.map_filter
       (\<lambda>po. map_option (\<lambda>a. total_seconds (a - issue_date po)) (acknowledgement_date po))
       (filter (\<lambda>po. vendor po = c) xs)"
  by (induction xs) (auto simp: List.map_filter_simps response_seconds_def)

lemma average_response_time_refines:
  "average_response_time (fst (calculate_average_response_time vnd s))
     = spec_average_response_time s (vendor_code vnd)"
  unfolding calculate_average_response_time_def spec_average_response_time_def mean_def
    vendor_orders_def Let_def
  by (simp add: response_times_eq [symmetric])

lemma Vendor_get_save: "vendor_code v = k \<Longrightarrow> Vendor_get k (Vendor_save v s) = Some v"
  by (auto simp add: Vendor_get_def Vendor_save_def find_upsert)

lemma map_filter_id_map: "List.map_filter id (map f xs) = List.map_filter f xs"
  by (induction xs) (auto simp: List.map_filter_simps split: option.splits)

lemma quality_refines:
  "quality_rating_avg (fst (quality_rating_calculation vnd s))
     = spec_quality_rating_avg s (vendor_code vnd)"
  unfolding quality_rating_calculation_def spec_quality_rating_avg_def mean_def
    vendor_orders_def Let_def Avg_def
  by (simp add: map_filter_id_map)

lemma fulfillment_refines:
  "fulfillment_rate (fst (fulfillment_rate_calculation vnd s))
     = spec_fulfillment_rate s (vendor_code vnd)"
  unfolding fulfillment_rate_calculation_def spec_fulfillment_rate_def vendor_orders_def
    Let_def
  by (simp add: conj_commute)

lemma find_key_Some: "find (\<lambda>y. key y = k) xs = Some x \<Longrightarrow> key x = k"
  by (induction xs) (auto split: if_splits)

lemma Vendor_get_code: "Vendor_get k s = Some v \<Longrightarrow> vendor_code v = k"
  unfolding Vendor_get_def by (rule find_key_Some)

lemma PurchaseOrder_get_number: "PurchaseOrder_get k s = Some po \<Longrightarrow> po_number po = k"
  unfolding PurchaseOrder_get_def by (rule find_key_Some)

lemma calculate_average_response_time_eq:
  "calculate_average_response_time vnd s =
     (vnd\<lparr>average_response_time := spec_average_response_time s (vendor_code vnd)\<rparr>,
      Vendor_save (vnd\<lparr>average_response_time := spec_average_response_time s (vendor_code vnd)\<rparr>) s)"
  using average_response_time_refines [of vnd s]
  by (simp add: calculate_average_response_time_def Let_def)

lemma quality_rating_calculation_eq:
  "quality_rating_calculation vnd s =
     (vnd\<lparr>quality_rating_avg := spec_quality_rating_avg s (vendor_code vnd)\<rparr>,
      Vendor_save (vnd\<lparr>quality_rating_avg := spec_quality_rating_avg s (vendor_code vnd)\<rparr>) s)"
  using quality_refines [of vnd s]
  by (simp add: quality_rating_calculation_def Let_def)

lemma fulfillment_rate_calculation_eq:
  "fulfillment_rate_calculation vnd s =
     (vnd\<lparr>fulfillment_rate := spec_fulfillment_rate s (vendor_code vnd)\<rparr>,
      Vendor_save (vnd\<lparr>fulfillment_rate := spec_fulfillment_rate s (vendor_code vnd)\<rparr>) s)"
  using fulfillment_refines [of vnd s]
  by (simp add: fulfillment_rate_calculation_def Let_def)

lemma tables_Vendor_save [simp]:
  "PurchaseOrder_objects (Vendor_save v s) = PurchaseOrder_objects s"
  "HistoricalPerformance_objects (Vendor_save v s) = HistoricalPerformance_objects s"
  by (simp_all add: Vendor_save_def)

lemma tables_PurchaseOrder_save [simp]:
  "Vendor_objects (PurchaseOrder_save po s) = Vendor_objects s"
  "HistoricalPerformance_objects (PurchaseOrder_save po s) = HistoricalPerformance_objects s"
  by (simp_all add: PurchaseOrder_save_def)

lemma tables_PurchaseOrder_delete [simp]:
  "Vendor_objects (PurchaseOrder_delete po s) = Vendor_objects s"
  "HistoricalPerformance_objects (PurchaseOrder_delete po s) = HistoricalPerformance_objects s"
  by (simp_all add: PurchaseOrder_delete_def)

lemma tables_create_historical_record [simp]:
  "Vendor_objects (create_historical_record now v s) = Vendor_objects s"
  "PurchaseOrder_objects (create_historical_record now v s) = PurchaseOrder_objects s"
  by (simp_all add: create_historical_record_def HistoricalPerformance_create_def)

lemma spec_cong:
  assumes "PurchaseOrder_objects s = PurchaseOrder_objects s'"
  shows "spec_average_response_time s c = spec_average_response_time s' c"
    and "spec_quality_rating_avg s c = spec_quality_rating_avg s' c"
    and "spec_fulfillment_rate s c = spec_fulfillment_rate s' c"
  using assms
  by (simp_all add: spec_average_response_time_def spec_quality_rating_avg_def
        spec_fulfillment_rate_def vendor_orders_def)

lemma upsert_upsert: "key x = key y \<Longrightarrow> upsert key x (upsert key y xs) = upsert key x xs"
  by (induction xs) auto

lemma Vendor_save_twice:
  "vendor_code v = vendor_code w \<Longrightarrow> Vendor_save v (Vendor_save w s) = Vendor_save v s"
  by (simp add: Vendor_save_def upsert_upsert)

lemma Vendor_get_PurchaseOrder_save [simp]:
  "Vendor_get k (PurchaseOrder_save po s) = Vendor_get k s"
  by (simp add: Vendor_get_def)

lemma Vendor_get_PurchaseOrder_delete [simp]:
  "Vendor_get k (PurchaseOrder_delete po s) = Vendor_get k s"
  by (simp add: Vendor_get_def)

lemma Vendor_get_create_historical_record [simp]:
  "Vendor_get k (create_historical_record now v s) = Vendor_get k s"
  by (simp add: Vendor_get_def)

lemma PurchaseOrder_get_Vendor_save [simp]:
  "PurchaseOrder_get k (Vendor_save v s) = PurchaseOrder_get k s"
  by (simp add: PurchaseOrder_get_def)

lemma PurchaseOrder_get_create_historical_record [simp]:
  "PurchaseOrder_get k (create_historical_record now v s) = PurchaseOrder_get k s"
  by (simp add: PurchaseOrder_get_def)

lemma PurchaseOrder_get_save:
  "po_number po = k \<Longrightarrow> PurchaseOrder_get k (PurchaseOrder_save po s) = Some po"
  by (auto simp add: PurchaseOrder_get_def PurchaseOrder_save_def find_upsert)

lemma spec_Vendor_save [simp]:
  "spec_average_response_time (Vendor_save v s) c = spec_average_response_time s c"
  "spec_quality_rating_avg (Vendor_save v s) c = spec_quality_rating_avg s c"
  "spec_fulfillment_rate (Vendor_save v s) c = spec_fulfillment_rate s c"
  by (simp_all add: spec_cong [of "Vendor_save v s" s])

lemma spec_create_historical_record [simp]:
  "spec_average_response_time (create_historical_record now v s) c = spec_average_response_time s c"
  "spec_quality_rating_avg (create_historical_record now v s) c = spec_quality_rating_avg s c"
  "spec_fulfillment_rate (create_historical_record now v s) c = spec_fulfillment_rate s c"
  by (simp_all add: spec_cong [of "create_historical_record now v s" s])

lemma history_create_historical_record:
  "HistoricalPerformance_objects (create_historical_record now v s) =
     HistoricalPerformance_objects s @ [snapshot now v]"
  by (simp add: create_historical_record_def HistoricalPerformance_create_def snapshot_def)

lemma vendor_assign_po_details [simp]: "vendor (assign_po_details po d) = vendor po"
  by (simp add: assign_po_details_def)

lemma purchase_order_data_PUT_overflow:
  assumes "PurchaseOrder_get po_id s = Some po"
      and "\<not> integer_column_fits (quantity (assign_po_details po d))"
  shows "purchase_order_data (PUT d) po_id now s = (server_error OverflowError, s)"
  using assms by (simp add: purchase_order_data_def Let_def)


lemma purchase_order_data_DELETE:
  assumes "PurchaseOrder_get po_id s = Some po" and "Vendor_get (vendor po) s = Some vnd"
  shows "purchase_order_data DELETE po_id now s =
           (JsonResponse (MessageJson ''purchase order deleted'') 204,
            (let s1 = PurchaseOrder_delete po s;
                 vnd3 = vnd\<lparr>average_response_time := spec_average_response_time s1 (vendor po),
                            fulfillment_rate := spec_fulfillment_rate s1 (vendor po),
                            quality_rating_avg := spec_quality_rating_avg s1 (vendor po)\<rparr>
             in create_historical_record now vnd3 (Vendor_save vnd3 s1)))"
  using assms Vendor_get_code [OF assms(2)]
  by (simp add: purchase_order_data_def Let_def quality_rating_calculation_eq
        fulfillment_rate_calculation_eq calculate_average_response_time_eq Vendor_save_twice)

lemma acknowledge_purchase_order_first:
  assumes "PurchaseOrder_get po_id s = Some po" and "Vendor_get (vendor po) s = Some vnd"
    and "acknowledgement_date po = None"
  shows "acknowledge_purchase_order po_id t_ack now s =
           (JsonResponse (MessageJson ''purchase order acknowledged'') 200,
            (let s1 = PurchaseOrder_save (po\<lparr>acknowledgement_date := Some t_ack\<rparr>) s;
                 vnd1 = vnd\<lparr>average_response_time := spec_average_response_time s1 (vendor po)\<rparr>
             in create_historical_record now vnd1 (Vendor_save vnd1 s1)))"
  using assms Vendor_get_code [OF assms(2)]
  by (simp add: acknowledge_purchase_order_def Let_def calculate_average_response_time_eq)

lemma acknowledge_purchase_order_again:
  assumes "PurchaseOrder_get po_id s = Some po" and "acknowledgement_date po \<noteq> None"
  shows "acknowledge_purchase_order po_id t_ack now s =
           (JsonResponse (MessageJson ''purchase order already acknowledged'') 200, s)"
  using assms by (auto simp add: acknowledge_purchase_order_def)

section \<open>The metric functions\<close>

lemma spec_average_response_time_unfold:
  "spec_average_response_time s c =
     (let acknowledged = filter (\<lambda>po. acknowledgement_date po \<noteq> None) (vendor_orders s c)
      in if acknowledged = [] then 0
         else sum_list (map response_seconds acknowledged) / real (length acknowledged))"
proof -
  have "spec_average_response_time s (vendor_code (vnd :: Vendor))
        = average_response_time (fst (calculate_average_response_time vnd s))" for vnd
    by (simp add: average_response_time_refines)
  from this [of "\<lparr>vendor_code = c, name = [], contact_details = [], address = [],
      on_time_delivery_rate = 0, quality_rating_avg = 0, average_response_time = 0,
      fulfillment_rate = 0\<rparr>"]
  show ?thesis
    by (simp add: calculate_average_response_time_def Let_def vendor_orders_def conj_commute)
qed

text \<open>
  Claim C5. \<open>calculate_average_response_time\<close> sets the vendor's
  \<open>average_response_time\<close> to the mean of \<open>acknowledgement_date - issue_date\<close>, in
  seconds, over exactly the vendor's purchase orders with a non-null acknowledgement
  date, unrounded, and to 0 when there is none; it changes no other attribute and saves
  the vendor row, leaving the other two tables as they were.
\<close>

theorem calculate_average_response_time_mean:
  "(let (vnd', s') = calculate_average_response_time vnd s;
        acknowledged = filter (\<lambda>po. acknowledgement_date po \<noteq> None)
                         (vendor_orders s (vendor_code vnd))
    in vnd' = vnd\<lparr>average_response_time := spec_average_response_time s (vendor_code vnd)\<rparr> \<and>
       average_response_time vnd' =
         (if acknowledged = [] then 0
          else sum_list (map response_seconds acknowledged) / real (length acknowledged)) \<and>
       Vendor_get (vendor_code vnd) s' = Some vnd' \<and>
       PurchaseOrder_objects s' = PurchaseOrder_objects s \<and>
       HistoricalPerformance_objects s' = HistoricalPerformance_objects s)"
  using spec_average_response_time_unfold [of s "vendor_code vnd"]
  by (simp add: calculate_average_response_time_eq Vendor_get_save Let_def)

text \<open>
  Claim C6. \<open>quality_rating_calculation\<close> sets the vendor's \<open>quality_rating_avg\<close> to
  the mean of \<open>quality_rating\<close> over the vendor's purchase orders of status
  \<open>completed\<close>, null ratings left out by the aggregate, and to 0 when the vendor has no
  completed order or the aggregate is null; it saves the vendor row.
\<close>

theorem quality_rating_calculation_mean:
  "(let (vnd', s') = quality_rating_calculation vnd s;
        ratings = List.map_filter quality_rating
                    (filter (\<lambda>po. status po = ''completed'') (vendor_orders s (vendor_code vnd)))
    in vnd' = vnd\<lparr>quality_rating_avg := spec_quality_rating_avg s (vendor_code vnd)\<rparr> \<and>
       quality_rating_avg vnd' =
         (if filter (\<lambda>po. status po = ''completed'') (vendor_orders s (vendor_code vnd)) = [] then 0
          else if ratings = [] then 0
          else sum_list ratings / real (length ratings)) \<and>
       Vendor_get (vendor_code vnd) s' = Some vnd' \<and>
       PurchaseOrder_objects s' = PurchaseOrder_objects s \<and>
       HistoricalPerformance_objects s' = HistoricalPerformance_objects s)"
proof -
  have "spec_quality_rating_avg s (vendor_code vnd) =
          (let ratings = List.map_filter quality_rating
                    (filter (\<lambda>po. status po = ''completed'') (vendor_orders s (vendor_code vnd)))
           in if filter (\<lambda>po. status po = ''completed'') (vendor_orders s (vendor_code vnd)) = [] then 0
          else if ratings = [] then 0
          else sum_list ratings / real (length ratings))"
    by (auto simp add: spec_quality_rating_avg_def mean_def List.map_filter_simps Let_def)
  then show ?thesis
    by (simp add: quality_rating_calculation_eq Vendor_get_save Let_def)
qed

text \<open>
  Claim C7. \<open>fulfillment_rate_calculation\<close> sets the vendor's \<open>fulfillment_rate\<close> to
  the number of the vendor's purchase orders of status \<open>completed\<close> divided by the
  number of all the vendor's purchase orders, and to 0 when the vendor has none; it
  saves the vendor row.
\<close>

theorem fulfillment_rate_calculation_ratio:
  "(let (vnd', s') = fulfillment_rate_calculation vnd s;
        total = vendor_orders s (vendor_code vnd);
        completed = filter (\<lambda>po. status po = ''completed'') total
    in vnd' = vnd\<lparr>fulfillment_rate := spec_fulfillment_rate s (vendor_code vnd)\<rparr> \<and>
       fulfillment_rate vnd' =
         (if total = [] then 0 else real (length completed) / real (length total)) \<and>
       Vendor_get (vendor_code vnd) s' = Some vnd' \<and>
       PurchaseOrder_objects s' = PurchaseOrder_objects s \<and>
       HistoricalPerformance_objects s' = HistoricalPerformance_objects s)"
  by (simp add: fulfillment_rate_calculation_eq Vendor_get_save Let_def spec_fulfillment_rate_def)

text \<open>The three functions on the store with four orders: the mean response time of
  the first vendor is 3 seconds, its mean rating 4, its fulfillment rate two thirds.\<close>

lemma metrics_db_average_response_time:
  "average_response_time (fst (calculate_average_response_time test_vendor metrics_db)) = 3"
  by (simp add: calculate_average_response_time_def Let_def metrics_db_def test_order_def
        test_vendor_def response_seconds_def total_seconds_def)

lemma metrics_db_quality_rating_avg:
  "quality_rating_avg (fst (quality_rating_calculation test_vendor metrics_db)) = 4"
  by (simp add: quality_rating_calculation_def Let_def metrics_db_def test_order_def
        test_vendor_def Avg_def List.map_filter_simps)

lemma metrics_db_fulfillment_rate:
  "fulfillment_rate (fst (fulfillment_rate_calculation test_vendor metrics_db)) = 2 / 3"
  by (simp add: fulfillment_rate_calculation_def Let_def metrics_db_def test_order_def
        test_vendor_def)

section \<open>The handlers of a single purchase order\<close>


lemma test_order_stored: "PurchaseOrder_get ''PO001'' test_db = Some test_order"
  by (simp add: PurchaseOrder_get_def test_db_def test_order_def)

lemma test_vendor_stored: "Vendor_get (vendor test_order) test_db = Some test_vendor"
  by (simp add: Vendor_get_def test_db_def test_order_def test_vendor_def)











lemma purchase_order_data_PUT_orders:
  assumes "PurchaseOrder_get po_id s = Some po"
      and "integer_column_fits (quantity (assign_po_details po d))"
  shows "PurchaseOrder_objects (snd (purchase_order_data (PUT d) po_id now s)) =
           upsert po_number (assign_po_details po d) (PurchaseOrder_objects s)"
  using assms
  by (simp add: purchase_order_data_def Let_def quality_rating_calculation_eq
        fulfillment_rate_calculation_eq PurchaseOrder_save_def split: option.split)





lemma find_filter_neq: "find (\<lambda>y. key y = k) (filter (\<lambda>y. key y \<noteq> k) xs) = None"
  by (induction xs) auto

text \<open>
  Claim C4. Acknowledging a stored purchase order that has no acknowledgement date
  sets the date to the clock reading, stores the recomputed \<open>average_response_time\<close>
  in the vendor row, appends the vendor's snapshot and answers
  \<open>purchase order acknowledged\<close>; acknowledging the same order again leaves the store
  as it is and answers the different message \<open>purchase order already acknowledged\<close>.
\<close>

theorem acknowledge_twice:
  assumes "PurchaseOrder_get po_id s = Some po"
      and "acknowledgement_date po = None"
      and "Vendor_get (vendor po) s = Some vnd"
  shows "case acknowledge_purchase_order po_id t_ack now s of (resp1, s1) \<Rightarrow>
           (case acknowledge_purchase_order po_id t_ack' now' s1 of (resp2, s2) \<Rightarrow>
              resp1 = JsonResponse (MessageJson ''purchase order acknowledged'') 200 \<and>
              PurchaseOrder_get po_id s1 = Some (po\<lparr>acknowledgement_date := Some t_ack\<rparr>) \<and>
              Vendor_get (vendor po) s1 =
                Some (vnd\<lparr>average_response_time :=
                            spec_average_response_time s1 (vendor po)\<rparr>) \<and>
              HistoricalPerformance_objects s1 =
                HistoricalPerformance_objects s @
                  [snapshot now (vnd\<lparr>average_response_time :=
                                       spec_average_response_time s1 (vendor po)\<rparr>)] \<and>
              resp2 = JsonResponse (MessageJson ''purchase order already acknowledged'') 200 \<and>
              s2 = s1 \<and>
              content resp1 \<noteq> content resp2)"
proof -
  have num: "po_number po = po_id"
    using assms(1) by (rule PurchaseOrder_get_number)
  have code: "vendor_code vnd = vendor po"
    using assms(3) by (rule Vendor_get_code)
  define s1 where "s1 = snd (acknowledge_purchase_order po_id t_ack now s)"
  have first: "acknowledge_purchase_order po_id t_ack now s =
                 (JsonResponse (MessageJson ''purchase order acknowledged'') 200, s1)"
    by (simp add: s1_def acknowledge_purchase_order_first [OF assms(1,3,2)])
  have stored: "PurchaseOrder_get po_id s1 = Some (po\<lparr>acknowledgement_date := Some t_ack\<rparr>)"
    by (simp add: s1_def acknowledge_purchase_order_first [OF assms(1,3,2)] Let_def
          PurchaseOrder_get_save num)
  have vend: "Vendor_get (vendor po) s1 =
                Some (vnd\<lparr>average_response_time := spec_average_response_time s1 (vendor po)\<rparr>)"
    by (simp add: s1_def acknowledge_purchase_order_first [OF assms(1,3,2)] Let_def
          Vendor_get_save code)
  have hist: "HistoricalPerformance_objects s1 =
                HistoricalPerformance_objects s @
                  [snapshot now (vnd\<lparr>average_response_time :=
                                       spec_average_response_time s1 (vendor po)\<rparr>)]"
    by (simp add: s1_def acknowledge_purchase_order_first [OF assms(1,3,2)] Let_def
          history_create_historical_record)
  have second: "acknowledge_purchase_order po_id t_ack' now' s1 =
                  (JsonResponse (MessageJson ''purchase order already acknowledged'') 200, s1)"
    by (rule acknowledge_purchase_order_again [OF stored]) simp
  show ?thesis
    using stored vend hist by (simp add: first second JsonResponse_def)
qed

theorem acknowledge_twice_witness:
  "PurchaseOrder_get ''PO001'' test_db = Some test_order \<and>
   acknowledgement_date test_order = None \<and>
   Vendor_get (vendor test_order) test_db = Some test_vendor \<and>
   (case acknowledge_purchase_order ''PO001'' 3000000 3000001 test_db of (resp1, s1) \<Rightarrow>
      (case acknowledge_purchase_order ''PO001'' 4000000 4000001 s1 of (resp2, s2) \<Rightarrow>
         resp1 = JsonResponse (MessageJson ''purchase order acknowledged'') 200 \<and>
         PurchaseOrder_get ''PO001'' s1 = Some (test_order\<lparr>acknowledgement_date := Some 3000000\<rparr>) \<and>
         Vendor_get (vendor test_order) s1 =
           Some (test_vendor\<lparr>average_response_time :=
                   spec_average_response_time s1 (vendor test_order)\<rparr>) \<and>
         HistoricalPerformance_objects s1 =
           HistoricalPerformance_objects test_db @
             [snapshot 3000001 (test_vendor\<lparr>average_response_time :=
                                  spec_average_response_time s1 (vendor test_order)\<rparr>)] \<and>
         resp2 = JsonResponse (MessageJson ''purchase order already acknowledged'') 200 \<and>
         s2 = s1 \<and>
         content resp1 \<noteq> content resp2))"
proof -
  have unack: "acknowledgement_date test_order = None"
    by (simp add: test_order_def)
  show ?thesis
    by (intro conjI test_order_stored unack test_vendor_stored
          acknowledge_twice [OF test_order_stored unack test_vendor_stored])
qed

text \<open>
  Claim C8. DELETE on a stored purchase order answers 204, removes the order, then
  runs \<open>calculate_average_response_time\<close>, \<open>fulfillment_rate_calculation\<close> and
  \<open>quality_rating_calculation\<close> in this order on the store without the order, and
  appends one snapshot of the vendor; the three metrics of the vendor row are the values
  over the remaining orders, and all three are 0 when the deleted order was the vendor's
  only one.
\<close>

theorem delete_recomputes:
  assumes "PurchaseOrder_get po_id s = Some po"
      and "Vendor_get (vendor po) s = Some vnd"
  shows "case purchase_order_data DELETE po_id now s of (resp, s') \<Rightarrow>
           status_code resp = 204 \<and>
           PurchaseOrder_objects s' =
             filter (\<lambda>p. po_number p \<noteq> po_id) (PurchaseOrder_objects s) \<and>
           PurchaseOrder_get po_id s' = None \<and>
           s' = (let s1 = PurchaseOrder_delete po s;
                     (vnd1, s2) = calculate_average_response_time vnd s1;
                     (vnd2, s3) = fulfillment_rate_calculation vnd1 s2;
                     (vnd3, s4) = quality_rating_calculation vnd2 s3
                 in create_historical_record now vnd3 s4) \<and>
           (\<exists>vnd'. Vendor_get (vendor po) s' = Some vnd' \<and>
              average_response_time vnd' = spec_average_response_time s' (vendor po) \<and>
              fulfillment_rate vnd' = spec_fulfillment_rate s' (vendor po) \<and>
              quality_rating_avg vnd' = spec_quality_rating_avg s' (vendor po) \<and>
              HistoricalPerformance_objects s' =
                HistoricalPerformance_objects s @ [snapshot now vnd'] \<and>
              (vendor_orders s (vendor po) = [po] \<longrightarrow>
                 average_response_time vnd' = 0 \<and> fulfillment_rate vnd' = 0 \<and>
                 quality_rating_avg vnd' = 0))"
proof -
  have num: "po_number po = po_id"
    using assms(1) by (rule PurchaseOrder_get_number)
  have code: "vendor_code vnd = vendor po"
    using assms(2) by (rule Vendor_get_code)
  define s1 where "s1 = PurchaseOrder_delete po s"
  define vnd' where "vnd' = vnd\<lparr>average_response_time := spec_average_response_time s1 (vendor po),
                            fulfillment_rate := spec_fulfillment_rate s1 (vendor po),
                            quality_rating_avg := spec_quality_rating_avg s1 (vendor po)\<rparr>"
  define s' where "s' = create_historical_record now vnd' (Vendor_save vnd' s1)"
  have res: "purchase_order_data DELETE po_id now s =
               (JsonResponse (MessageJson ''purchase order deleted'') 204, s')"
    by (simp add: purchase_order_data_DELETE [OF assms] Let_def s'_def vnd'_def s1_def)
  have orders: "PurchaseOrder_objects s' = filter (\<lambda>p. po_number p \<noteq> po_id) (PurchaseOrder_objects s)"
    by (simp add: s'_def s1_def PurchaseOrder_delete_def num)
  have gone: "PurchaseOrder_get po_id s' = None"
    unfolding PurchaseOrder_get_def orders by (rule find_filter_neq)
  have seq: "s' = (let s1 = PurchaseOrder_delete po s;
                     (vnd1, s2) = calculate_average_response_time vnd s1;
                     (vnd2, s3) = fulfillment_rate_calculation vnd1 s2;
                     (vnd3, s4) = quality_rating_calculation vnd2 s3
                 in create_historical_record now vnd3 s4)"
    by (simp add: s'_def vnd'_def s1_def Let_def calculate_average_response_time_eq
          fulfillment_rate_calculation_eq quality_rating_calculation_eq code Vendor_save_twice)
  have specs: "spec_average_response_time s' (vendor po) = spec_average_response_time s1 (vendor po)"
    "spec_fulfillment_rate s' (vendor po) = spec_fulfillment_rate s1 (vendor po)"
    "spec_quality_rating_avg s' (vendor po) = spec_quality_rating_avg s1 (vendor po)"
    by (simp_all add: s'_def)
  have vend: "Vendor_get (vendor po) s' = Some vnd'"
    by (simp add: s'_def Vendor_get_save vnd'_def code)
  have hist: "HistoricalPerformance_objects s' = HistoricalPerformance_objects s @ [snapshot now vnd']"
    by (simp add: s'_def history_create_historical_record s1_def)
  have only: "average_response_time vnd' = 0 \<and> fulfillment_rate vnd' = 0 \<and>
              quality_rating_avg vnd' = 0" if "vendor_orders s (vendor po) = [po]"
  proof -
    have "vendor_orders s1 (vendor po) =
            filter (\<lambda>p. po_number p \<noteq> po_number po) (vendor_orders s (vendor po))"
      by (simp add: vendor_orders_def s1_def PurchaseOrder_delete_def conj_commute)
    then have "vendor_orders s1 (vendor po) = []"
      using that by simp
    then show ?thesis
      by (simp add: vnd'_def spec_average_response_time_def spec_fulfillment_rate_def
            spec_quality_rating_avg_def mean_def List.map_filter_simps)
  qed
  have ex: "\<exists>vnd'. Vendor_get (vendor po) s' = Some vnd' \<and>
              average_response_time vnd' = spec_average_response_time s' (vendor po) \<and>
              fulfillment_rate vnd' = spec_fulfillment_rate s' (vendor po) \<and>
              quality_rating_avg vnd' = spec_quality_rating_avg s' (vendor po) \<and>
              HistoricalPerformance_objects s' =
                HistoricalPerformance_objects s @ [snapshot now vnd'] \<and>
              (vendor_orders s (vendor po) = [po] \<longrightarrow>
                 average_response_time vnd' = 0 \<and> fulfillment_rate vnd' = 0 \<and>
                 quality_rating_avg vnd' = 0)"
  proof (intro exI [of _ vnd'] conjI impI)
    show "Vendor_get (vendor po) s' = Some vnd'" by (rule vend)
    show "HistoricalPerformance_objects s' =
            HistoricalPerformance_objects s @ [snapshot now vnd']" by (rule hist)
  qed (simp_all add: specs only, simp_all add: vnd'_def)
  show ?thesis
    unfolding res prod.case
    by (intro conjI) (simp add: JsonResponse_def, rule orders, rule gone, rule seq, rule ex)
qed

theorem delete_recomputes_witness:
  "PurchaseOrder_get ''PO001'' test_db = Some test_order \<and>
   Vendor_get (vendor test_order) test_db = Some test_vendor \<and>
   vendor_orders test_db (vendor test_order) = [test_order] \<and>
   (case purchase_order_data DELETE ''PO001'' 2000000 test_db of (resp, s') \<Rightarrow>
      status_code resp = 204 \<and>
      PurchaseOrder_get ''PO001'' s' = None \<and>
      (\<exists>vnd'. Vendor_get (vendor test_order) s' = Some vnd' \<and>
         HistoricalPerformance_objects s' =
           HistoricalPerformance_objects test_db @ [snapshot 2000000 vnd'] \<and>
         average_response_time vnd' = 0 \<and> fulfillment_rate vnd' = 0 \<and>
         quality_rating_avg vnd' = 0))"
proof -
  have only: "vendor_orders test_db (vendor test_order) = [test_order]"
    by (simp add: vendor_orders_def test_db_def)
  show ?thesis
    using delete_recomputes [OF test_order_stored test_vendor_stored, of 2000000]
      test_order_stored test_vendor_stored only
    by (auto split: prod.splits)
qed

section \<open>Historical records along a sequence of requests\<close>


lemma find_Some_in_set: "find P xs = Some x \<Longrightarrow> x \<in> set xs"
  by (induction xs) (auto split: if_splits)

lemma set_upsert: "set (upsert key x xs) \<subseteq> insert x (set xs)"
  by (induction xs) auto




















text \<open>The handlers never store a quantity the column cannot hold: the orders they load,
  and save again in \<open>acknowledge_purchase_order\<close>, carry quantities that fit.\<close>

lemma quantities_fit_iff:
  "quantities_fit s \<longleftrightarrow>
     (\<forall>po \<in> set (PurchaseOrder_objects s). integer_column_fits (quantity po))"
  by (simp add: quantities_fit_def list_all_iff)

lemma quantities_fit_upsert:
  assumes "quantities_fit s" and "integer_column_fits (quantity po)"
    and "PurchaseOrder_objects s' = upsert po_number po (PurchaseOrder_objects s)"
  shows "quantities_fit s'"
  using assms set_upsert [of po_number po "PurchaseOrder_objects s"]
  by (auto simp: quantities_fit_iff)

lemma purchase_orders_POST_stored:
  "snd (purchase_orders (POST d) q s) = s \<or>
   (\<exists>po. integer_column_fits (quantity po) \<and>
      snd (purchase_orders (POST d) q s) =
        PurchaseOrder_save po (s\<lparr>PurchaseOrder_objects := PurchaseOrder_objects s @ [po]\<rparr>))"
proof (cases "Vendor_get (the (pd_vendor d)) s")
  case None
  then show ?thesis
    by (simp add: purchase_orders_def Let_def)
next
  case (Some vnd)
  then show ?thesis
    by (simp add: purchase_orders_def Let_def PurchaseOrder_create_def) force
qed

lemma purchase_orders_quantities_fit:
  assumes "quantities_fit s"
  shows "quantities_fit (snd (purchase_orders request vendor_id s))"
proof (cases request)
  case (POST d)
  from purchase_orders_POST_stored [of d vendor_id s] show ?thesis
  proof
    assume "snd (purchase_orders (POST d) vendor_id s) = s"
    then show ?thesis using assms POST by simp
  next
    assume "\<exists>po. integer_column_fits (quantity po) \<and>
      snd (purchase_orders (POST d) vendor_id s) =
        PurchaseOrder_save po (s\<lparr>PurchaseOrder_objects := PurchaseOrder_objects s @ [po]\<rparr>)"
    then obtain po where po: "integer_column_fits (quantity po)"
      and eq: "snd (purchase_orders (POST d) vendor_id s) =
        PurchaseOrder_save po (s\<lparr>PurchaseOrder_objects := PurchaseOrder_objects s @ [po]\<rparr>)"
      by blast
    have "quantities_fit (s\<lparr>PurchaseOrder_objects := PurchaseOrder_objects s @ [po]\<rparr>)"
      using assms po by (simp add: quantities_fit_iff)
    then have "quantities_fit (snd (purchase_orders (POST d) vendor_id s))"
      using po unfolding eq by (rule quantities_fit_upsert) (simp add: PurchaseOrder_save_def)
    then show ?thesis using POST by simp
  qed
qed (use assms in \<open>auto simp: purchase_orders_def method_not_allowed_def split: option.splits\<close>)

lemma purchase_order_data_quantities_fit:
  assumes "quantities_fit s"
  shows "quantities_fit (snd (purchase_order_data request po_id now s))"
proof (cases "PurchaseOrder_get po_id s")
  case None
  then show ?thesis
    using assms by (cases request) (simp_all add: purchase_order_data_def)
next
  case (Some po)
  show ?thesis
  proof (cases request)
    case GET
    then show ?thesis using assms Some by (simp add: purchase_order_data_def)
  next
    case (POST d)
    then show ?thesis using assms by (simp add: purchase_order_data_def)
  next
    case (PUT d)
    show ?thesis
    proof (cases "integer_column_fits (quantity (assign_po_details po d))")
      case True
      show ?thesis
        unfolding PUT
        using assms True
        by (rule quantities_fit_upsert) (rule purchase_order_data_PUT_orders [OF Some True])
    next
      case False
      then show ?thesis
        using assms by (simp add: PUT purchase_order_data_PUT_overflow [OF Some False])
    qed
  next
    case DELETE
    have "set (PurchaseOrder_objects (snd (purchase_order_data DELETE po_id now s)))
            \<subseteq> set (PurchaseOrder_objects s)"
      using Some
      by (auto simp: purchase_order_data_def Let_def calculate_average_response_time_eq
            fulfillment_rate_calculation_eq quality_rating_calculation_eq
            PurchaseOrder_delete_def split: option.splits)
    then show ?thesis
      using assms by (auto simp: DELETE quantities_fit_iff)
  qed
qed

lemma acknowledge_purchase_order_quantities_fit:
  assumes "quantities_fit s"
  shows "quantities_fit (snd (acknowledge_purchase_order po_id t_ack now s))"
proof (cases "PurchaseOrder_get po_id s")
  case None
  then show ?thesis
    using assms by (simp add: acknowledge_purchase_order_def)
next
  case (Some po)
  have "po \<in> set (PurchaseOrder_objects s)"
    using Some unfolding PurchaseOrder_get_def by (rule find_Some_in_set)
  then have fits: "integer_column_fits (quantity (po\<lparr>acknowledgement_date := Some t_ack\<rparr>))"
    using assms by (simp add: quantities_fit_iff)
  show ?thesis
  proof (cases "acknowledgement_date po = None")
    case True
    have "PurchaseOrder_objects (snd (acknowledge_purchase_order po_id t_ack now s)) =
            upsert po_number (po\<lparr>acknowledgement_date := Some t_ack\<rparr>) (PurchaseOrder_objects s)"
      using Some True
      by (simp add: acknowledge_purchase_order_def Let_def calculate_average_response_time_eq
            PurchaseOrder_save_def split: option.split)
    with assms fits show ?thesis by (rule quantities_fit_upsert)
  next
    case False
    then show ?thesis
      using assms by (simp add: acknowledge_purchase_order_again [OF Some False])
  qed
qed

lemma run_quantities_fit: "quantities_fit s \<Longrightarrow> quantities_fit (run rs s)"
proof (induction rs arbitrary: s)
  case Nil
  then show ?case by simp
next
  case (Cons r rs)
  have "quantities_fit (snd (handle r s))"
    using Cons.prems
    by (cases r)
       (simp_all add: purchase_orders_quantities_fit purchase_order_data_quantities_fit
          acknowledge_purchase_order_quantities_fit)
  then show ?case
    using Cons.IH by simp
qed

section \<open>Error statuses\<close>

text \<open>The handlers read the required keys with \<open>the\<close> only after the check for
  missing fields has passed, where every one of them is present.\<close>

lemma vendors_required_present:
  assumes "filter (\<lambda>field. \<not> vendor_details_contains d field) vendors_required_fields = []"
  shows "vd_name d \<noteq> None \<and> vd_contact_details d \<noteq> None \<and> vd_address d \<noteq> None \<and>
         vd_vendor_code d \<noteq> None \<and> vd_on_time_delivery_rate d \<noteq> None \<and>
         vd_quality_rating_avg d \<noteq> None \<and> vd_average_response_time d \<noteq> None \<and>
         vd_fulfillment_rate d \<noteq> None"
proof -
  have "\<forall>field \<in> set vendors_required_fields. vendor_details_contains d field"
    using assms by (simp add: filter_empty_conv)
  then show ?thesis
    by (simp add: vendors_required_fields_def vendor_details_contains_def)
qed

lemma purchase_orders_required_present:
  assumes "filter (\<lambda>field. \<not> po_details_contains d field) purchase_orders_required_fields = []"
  shows "pd_po_number d \<noteq> None \<and> pd_vendor d \<noteq> None \<and> pd_order_date d \<noteq> None \<and>
         pd_delivery_date d \<noteq> None \<and> pd_items d \<noteq> None \<and> pd_quantity d \<noteq> None \<and>
         pd_status d \<noteq> None \<and> pd_issue_date d \<noteq> None"
proof -
  have "\<forall>field \<in> set purchase_orders_required_fields. po_details_contains d field"
    using assms by (simp add: filter_empty_conv)
  then show ?thesis
    by (simp add: purchase_orders_required_fields_def po_details_contains_def)
qed

lemma sublist_join: "x \<in> set xs \<Longrightarrow> sublist x (join sep xs)"
proof (induction sep xs rule: join.induct)
  case (1 sep)
  then show ?case by simp
next
  case (2 sep y)
  then show ?case by simp
next
  case (3 sep y z zs)
  show ?case
  proof (cases "x = y")
    case True
    then show ?thesis by simp
  next
    case False
    with 3 have "sublist x (join sep (z # zs))" by simp
    then obtain ps ss where "join sep (z # zs) = ps @ x @ ss"
      by (auto simp: sublist_def)
    then have "join sep (y # z # zs) = (y @ sep @ ps) @ x @ ss" by simp
    then show ?thesis unfolding sublist_def by blast
  qed
qed

lemma sublist_message:
  assumes "field \<in> set required" and "\<not> present field"
  shows "sublist field (prefix_text @ join sep (filter (\<lambda>f. \<not> present f) required))"
proof -
  have "sublist field (join sep (filter (\<lambda>f. \<not> present f) required))"
    using assms by (intro sublist_join) simp
  then obtain ps ss where "join sep (filter (\<lambda>f. \<not> present f) required) = ps @ field @ ss"
    by (auto simp: sublist_def)
  then have "prefix_text @ join sep (filter (\<lambda>f. \<not> present f) required)
               = (prefix_text @ ps) @ field @ ss" by simp
  then show ?thesis unfolding sublist_def by blast
qed

lemma vendors_POST_missing:
  assumes "\<exists>field \<in> set vendors_required_fields. \<not> vendor_details_contains d field"
  shows "vendors (POST d) s =
           (JsonResponse
              (ErrorJson (''missing fields: '' @
                 join '', '' (filter (\<lambda>field. \<not> vendor_details_contains d field)
                                vendors_required_fields))) 400, s)"
proof -
  have "filter (\<lambda>field. \<not> vendor_details_contains d field) vendors_required_fields \<noteq> []"
    using assms by (simp add: filter_empty_conv)
  then show ?thesis
    by (simp add: vendors_def Let_def)
qed

lemma purchase_orders_POST_missing:
  assumes "\<exists>field \<in> set purchase_orders_required_fields. \<not> po_details_contains d field"
  shows "purchase_orders (POST d) q s =
           (JsonResponse
              (ErrorJson (''Missing fields: '' @
                 join '', '' (filter (\<lambda>field. \<not> po_details_contains d field)
                                purchase_orders_required_fields))) 400, s)"
proof -
  have "filter (\<lambda>field. \<not> po_details_contains d field) purchase_orders_required_fields \<noteq> []"
    using assms by (simp add: filter_empty_conv)
  then show ?thesis
    by (simp add: purchase_orders_def Let_def)
qed

text \<open>A create request whose quantity the column cannot hold raises inside the
  \<open>try\<close> of the handler: it is answered 400 and nothing is stored.\<close>

lemma purchase_orders_POST_overflow:
  assumes "filter (\<lambda>field. \<not> po_details_contains d field) purchase_orders_required_fields = []"
      and "Vendor_get (the (pd_vendor d)) s = Some vnd"
      and "\<not> integer_column_fits (the (pd_quantity d))"
  shows "purchase_orders (POST d) q s = (JsonResponse (ExceptionJson OverflowError) 400, s)"
  using assms by (simp add: purchase_orders_def Let_def PurchaseOrder_create_def)

lemma vendor_data_unknown:
  assumes "Vendor_get vendor_id s = None"
  shows "vendor_data GET vendor_id s = (JsonResponse (ErrorJson ''invalid vendor id'') 404, s)"
    and "vendor_data (PUT d) vendor_id s = (JsonResponse (ErrorJson ''invalid vendor id'') 404, s)"
    and "vendor_data DELETE vendor_id s = (JsonResponse (ErrorJson ''invalid vendor id'') 404, s)"
    and "vendor_performance vendor_id s = (JsonResponse (ErrorJson ''invalid vendor id'') 404, s)"
  using assms by (simp_all add: vendor_data_def vendor_performance_def)

lemma purchase_order_data_unknown:
  assumes "PurchaseOrder_get po_id s = None"
  shows "purchase_order_data GET po_id now s =
           (JsonResponse (ErrorJson ''invalid purchase order id'') 404, s)"
    and "purchase_order_data (PUT d) po_id now s =
           (JsonResponse (ErrorJson ''invalid purchase order id'') 404, s)"
    and "purchase_order_data DELETE po_id now s =
           (JsonResponse (ErrorJson ''invalid purchase order id'') 404, s)"
    and "acknowledge_purchase_order po_id t_ack now s =
           (JsonResponse (ErrorJson ''purchase order not found'') 404, s)"
  using assms by (simp_all add: purchase_order_data_def acknowledge_purchase_order_def)

lemma vendor_data_DELETE:
  assumes "Vendor_get vendor_id s = Some vnd"
  shows "vendor_data DELETE vendor_id s =
           (JsonResponse (MessageJson ''vendor deleted'') 204, Vendor_delete vnd s)"
  using assms by (simp add: vendor_data_def)

lemma Vendor_get_Vendor_delete:
  "vendor_code vnd = k \<Longrightarrow> Vendor_get k (Vendor_delete vnd s) = None"
  by (auto simp add: Vendor_get_def Vendor_delete_def find_filter_neq)

text \<open>
  The statuses of the guarded paths. A POST to the vendor or the purchase-order
  collection whose body lacks a required field is answered 400 with an error text in
  which every missing field occurs by name, and the store is left as it was. A request
  to the route of a vendor or of a purchase order whose identifier is not stored (read,
  update, delete, performance, acknowledge) is answered 404. A DELETE that removes a
  stored vendor or purchase order is answered 204.
\<close>

theorem error_and_delete_statuses:
  "((\<exists>field \<in> set vendors_required_fields. \<not> vendor_details_contains vd field) \<longrightarrow>
      (case vendors (POST vd) s of (resp, s') \<Rightarrow>
         status_code resp = 400 \<and> s' = s \<and>
         (\<exists>msg. content resp = ErrorJson msg \<and>
            (\<forall>field \<in> set vendors_required_fields.
               \<not> vendor_details_contains vd field \<longrightarrow> sublist field msg)))) \<and>
   ((\<exists>field \<in> set purchase_orders_required_fields. \<not> po_details_contains pd field) \<longrightarrow>
      (case purchase_orders (POST pd) q s of (resp, s') \<Rightarrow>
         status_code resp = 400 \<and> s' = s \<and>
         (\<exists>msg. content resp = ErrorJson msg \<and>
            (\<forall>field \<in> set purchase_orders_required_fields.
               \<not> po_details_contains pd field \<longrightarrow> sublist field msg)))) \<and>
   (Vendor_get vendor_id s = None \<longrightarrow>
      status_code (fst (vendor_data GET vendor_id s)) = 404 \<and>
      status_code (fst (vendor_data (PUT vd) vendor_id s)) = 404 \<and>
      status_code (fst (vendor_data DELETE vendor_id s)) = 404 \<and>
      status_code (fst (vendor_performance vendor_id s)) = 404) \<and>
   (PurchaseOrder_get po_id s = None \<longrightarrow>
      status_code (fst (purchase_order_data GET po_id now s)) = 404 \<and>
      status_code (fst (purchase_order_data (PUT pd) po_id now s)) = 404 \<and>
      status_code (fst (purchase_order_data DELETE po_id now s)) = 404 \<and>
      status_code (fst (acknowledge_purchase_order po_id t_ack now s)) = 404) \<and>
   (Vendor_get vendor_id s \<noteq> None \<longrightarrow>
      status_code (fst (vendor_data DELETE vendor_id s)) = 204 \<and>
      Vendor_get vendor_id (snd (vendor_data DELETE vendor_id s)) = None) \<and>
   (PurchaseOrder_get po_id s = Some po \<and> Vendor_get (vendor po) s \<noteq> None \<longrightarrow>
      status_code (fst (purchase_order_data DELETE po_id now s)) = 204 \<and>
      PurchaseOrder_get po_id (snd (purchase_order_data DELETE po_id now s)) = None)"
proof (intro conjI impI)
  assume h: "\<exists>field \<in> set vendors_required_fields. \<not> vendor_details_contains vd field"
  have msg: "\<forall>field \<in> set vendors_required_fields. \<not> vendor_details_contains vd field \<longrightarrow>
               sublist field (''missing fields: '' @
                 join '', '' (filter (\<lambda>field. \<not> vendor_details_contains vd field)
                                vendors_required_fields))"
    by (intro ballI impI sublist_message)
  show "case vendors (POST vd) s of (resp, s') \<Rightarrow>
         status_code resp = 400 \<and> s' = s \<and>
         (\<exists>msg. content resp = ErrorJson msg \<and>
            (\<forall>field \<in> set vendors_required_fields.
               \<not> vendor_details_contains vd field \<longrightarrow> sublist field msg))"
    unfolding vendors_POST_missing [OF h] prod.case JsonResponse_def
    using msg by (simp only: response.select_convs) blast
next
  assume h: "\<exists>field \<in> set purchase_orders_required_fields. \<not> po_details_contains pd field"
  have msg: "\<forall>field \<in> set purchase_orders_required_fields. \<not> po_details_contains pd field \<longrightarrow>
               sublist field (''Missing fields: '' @
                 join '', '' (filter (\<lambda>field. \<not> po_details_contains pd field)
                                purchase_orders_required_fields))"
    by (intro ballI impI sublist_message)
  show "case purchase_orders (POST pd) q s of (resp, s') \<Rightarrow>
         status_code resp = 400 \<and> s' = s \<and>
         (\<exists>msg. content resp = ErrorJson msg \<and>
            (\<forall>field \<in> set purchase_orders_required_fields.
               \<not> po_details_contains pd field \<longrightarrow> sublist field msg))"
    unfolding purchase_orders_POST_missing [OF h] prod.case JsonResponse_def
    using msg by (simp only: response.select_convs) blast
next
  assume "Vendor_get vendor_id s \<noteq> None"
  then obtain vnd where vnd: "Vendor_get vendor_id s = Some vnd" by blast
  show "status_code (fst (vendor_data DELETE vendor_id s)) = 204"
    by (simp add: vendor_data_DELETE [OF vnd] JsonResponse_def)
  show "Vendor_get vendor_id (snd (vendor_data DELETE vendor_id s)) = None"
    by (simp add: vendor_data_DELETE [OF vnd] Vendor_get_Vendor_delete Vendor_get_code [OF vnd])
next
  assume "PurchaseOrder_get po_id s = Some po \<and> Vendor_get (vendor po) s \<noteq> None"
  then obtain vnd where po: "PurchaseOrder_get po_id s = Some po"
    and vnd: "Vendor_get (vendor po) s = Some vnd" by blast
  have num: "po_number po = po_id"
    using po by (rule PurchaseOrder_get_number)
  show "status_code (fst (purchase_order_data DELETE po_id now s)) = 204"
    by (simp add: purchase_order_data_DELETE [OF po vnd] JsonResponse_def)
  show "PurchaseOrder_get po_id (snd (purchase_order_data DELETE po_id now s)) = None"
    by (simp add: purchase_order_data_DELETE [OF po vnd] Let_def PurchaseOrder_get_def
          PurchaseOrder_delete_def num find_filter_neq)
qed (simp_all add: vendor_data_unknown purchase_order_data_unknown JsonResponse_def)

text \<open>The \<open>vendor_id\<close> filter of the list request addresses a vendor as well. Line 160
  looks it up outside any \<open>try\<close>, where every other lookup by identifier is guarded.\<close>

lemma purchase_orders_filter_unknown_vendor:
  assumes "Vendor_get vendor_id s = None" and "vendor_id \<noteq> []"
  shows "purchase_orders GET (Some vendor_id) s = (server_error DoesNotExist, s)"
  using assms by (simp add: purchase_orders_def)

text \<open>
  Claim C9. The claim asks status 404 of every request that addresses an unknown vendor
  or purchase order. On the fixture, the list request
  \<open>GET /api/purchase_orders/?vendor_id=TEST009\<close> names a vendor that is not stored:
  \<open>Vendor.objects.get\<close> raises \<open>DoesNotExist\<close>, nothing catches it, and the request
  ends with status 500, not 404.
\<close>

theorem unknown_vendor_filter_status:
  "Vendor_get ''TEST009'' test_db = None \<and>
   purchase_orders GET (Some ''TEST009'') test_db = (server_error DoesNotExist, test_db) \<and>
   status_code (fst (purchase_orders GET (Some ''TEST009'') test_db)) = 500 \<and>
   status_code (fst (purchase_orders GET (Some ''TEST009'') test_db)) \<noteq> 404"
proof -
  have none: "Vendor_get ''TEST009'' test_db = None"
    by (simp add: Vendor_get_def test_db_def test_vendor_def)
  have "purchase_orders GET (Some ''TEST009'') test_db = (server_error DoesNotExist, test_db)"
    by (rule purchase_orders_filter_unknown_vendor [OF none]) simp
  then show ?thesis
    using none by (simp add: server_error_def)
qed

theorem error_and_delete_statuses_witness:
  "(\<exists>field \<in> set vendors_required_fields. \<not> vendor_details_contains empty_vendor_details field) \<and>
   (case vendors (POST empty_vendor_details) test_db of (resp, s') \<Rightarrow>
         status_code resp = 400 \<and> s' = test_db \<and>
         (\<exists>msg. content resp = ErrorJson msg \<and>
            (\<forall>field \<in> set vendors_required_fields.
               \<not> vendor_details_contains empty_vendor_details field \<longrightarrow> sublist field msg))) \<and>
   (\<exists>field \<in> set purchase_orders_required_fields. \<not> po_details_contains status_completed field) \<and>
   (case purchase_orders (POST status_completed) None test_db of (resp, s') \<Rightarrow>
         status_code resp = 400 \<and> s' = test_db \<and>
         (\<exists>msg. content resp = ErrorJson msg \<and>
            (\<forall>field \<in> set purchase_orders_required_fields.
               \<not> po_details_contains status_completed field \<longrightarrow> sublist field msg))) \<and>
   Vendor_get ''TEST009'' test_db = None \<and>
   status_code (fst (vendor_data GET ''TEST009'' test_db)) = 404 \<and>
   status_code (fst (vendor_data (PUT empty_vendor_details) ''TEST009'' test_db)) = 404 \<and>
   status_code (fst (vendor_data DELETE ''TEST009'' test_db)) = 404 \<and>
   status_code (fst (vendor_performance ''TEST009'' test_db)) = 404 \<and>
   PurchaseOrder_get ''PO009'' test_db = None \<and>
   status_code (fst (purchase_order_data GET ''PO009'' 2000000 test_db)) = 404 \<and>
   status_code (fst (purchase_order_data (PUT status_completed) ''PO009'' 2000000 test_db)) = 404 \<and>
   status_code (fst (purchase_order_data DELETE ''PO009'' 2000000 test_db)) = 404 \<and>
   status_code (fst (acknowledge_purchase_order ''PO009'' 3000000 2000000 test_db)) = 404 \<and>
   Vendor_get ''TEST001'' test_db \<noteq> None \<and>
   status_code (fst (vendor_data DELETE ''TEST001'' test_db)) = 204 \<and>
   (PurchaseOrder_get ''PO001'' test_db = Some test_order \<and>
    Vendor_get (vendor test_order) test_db \<noteq> None) \<and>
   status_code (fst (purchase_order_data DELETE ''PO001'' 2000000 test_db)) = 204"
proof -
  note unknown = error_and_delete_statuses [where vd = empty_vendor_details and s = test_db
      and pd = status_completed and q = None and vendor_id = "''TEST009''"
      and po_id = "''PO009''" and now = 2000000 and t_ack = 3000000 and po = test_order]
  note known = error_and_delete_statuses [where vd = empty_vendor_details and s = test_db
      and pd = status_completed and q = None and vendor_id = "''TEST001''"
      and po_id = "''PO001''" and now = 2000000 and t_ack = 3000000 and po = test_order]
  have h1: "\<exists>field \<in> set vendors_required_fields.
              \<not> vendor_details_contains empty_vendor_details field"
    by (simp add: vendors_required_fields_def vendor_details_contains_def
          empty_vendor_details_def)
  have h2: "\<exists>field \<in> set purchase_orders_required_fields.
              \<not> po_details_contains status_completed field"
    by (simp add: purchase_orders_required_fields_def po_details_contains_def
          status_completed_def empty_po_details_def)
  have h3: "Vendor_get ''TEST009'' test_db = None"
    by (simp add: Vendor_get_def test_db_def test_vendor_def)
  have h4: "PurchaseOrder_get ''PO009'' test_db = None"
    by (simp add: PurchaseOrder_get_def test_db_def test_order_def)
  have h5: "Vendor_get ''TEST001'' test_db \<noteq> None"
    by (simp add: Vendor_get_def test_db_def test_vendor_def)
  have h6: "PurchaseOrder_get ''PO001'' test_db = Some test_order \<and>
            Vendor_get (vendor test_order) test_db \<noteq> None"
    by (simp add: test_order_stored test_vendor_stored)
  from unknown h1 have c1: "case vendors (POST empty_vendor_details) test_db of (resp, s') \<Rightarrow>
         status_code resp = 400 \<and> s' = test_db \<and>
         (\<exists>msg. content resp = ErrorJson msg \<and>
            (\<forall>field \<in> set vendors_required_fields.
               \<not> vendor_details_contains empty_vendor_details field \<longrightarrow> sublist field msg))"
    by (elim conjE) (erule mp)
  from unknown h2 have c2: "case purchase_orders (POST status_completed) None test_db of (resp, s') \<Rightarrow>
         status_code resp = 400 \<and> s' = test_db \<and>
         (\<exists>msg. content resp = ErrorJson msg \<and>
            (\<forall>field \<in> set purchase_orders_required_fields.
               \<not> po_details_contains status_completed field \<longrightarrow> sublist field msg))"
    by (elim conjE) (erule mp)
  from unknown h3 have c3:
    "status_code (fst (vendor_data GET ''TEST009'' test_db)) = 404 \<and>
     status_code (fst (vendor_data (PUT empty_vendor_details) ''TEST009'' test_db)) = 404 \<and>
     status_code (fst (vendor_data DELETE ''TEST009'' test_db)) = 404 \<and>
     status_code (fst (vendor_performance ''TEST009'' test_db)) = 404"
    by (elim conjE) (erule mp)
  from unknown h4 have c4:
    "status_code (fst (purchase_order_data GET ''PO009'' 2000000 test_db)) = 404 \<and>
     status_code (fst (purchase_order_data (PUT status_completed) ''PO009'' 2000000 test_db)) = 404 \<and>
     status_code (fst (purchase_order_data DELETE ''PO009'' 2000000 test_db)) = 404 \<and>
     status_code (fst (acknowledge_purchase_order ''PO009'' 3000000 2000000 test_db)) = 404"
    by (elim conjE) (erule mp)
  from known h5 have c5: "status_code (fst (vendor_data DELETE ''TEST001'' test_db)) = 204"
    by blast
  from known h6 have c6:
    "status_code (fst (purchase_order_data DELETE ''PO001'' 2000000 test_db)) = 204"
    by blast
  from h1 c1 h2 c2 h3 c3 h4 c4 h5 c5 h6 c6 show ?thesis
    by (intro conjI) (elim conjE, assumption)+
qed

end
